theory Spec2Isabelle
  imports Complex_Main "HOL-Library.Word" "HOL-Library.Multiset"
begin

section \<open>Data model of the marketplace catalog\<close>

text \<open>
  The Go package \<^verbatim>\<open>database\<close> (file \<^verbatim>\<open>rnd/gosrv/database/db.go\<close>) talks to a
  PostgreSQL store through a connection pool. The structs of package \<^verbatim>\<open>models\<close> are
  modelled as records with the fields the code reads and writes; Go's struct embedding
  (\<^verbatim>\<open>AgentWithMetadata\<close> embeds \<^verbatim>\<open>Agent\<close>) is record extension.
\<close>

datatype SubmissionStatus = PENDING | APPROVED | REJECTED

type_synonym time = int

type_synonym go_int = "64 word"

record Graph =
  g_Name :: string
  g_Description :: string
  g_Body :: string

record Agent =
  ID :: string
  Name :: string
  Description :: string
  Author :: string
  Keywords :: "string list"
  Categories :: "string list"
  Graph :: Graph

record AgentWithMetadata = Agent +
  Version :: int
  CreatedAt :: time
  UpdatedAt :: time
  SubmissionDate :: time
  SubmissionStatus :: SubmissionStatus

record AgentWithDownloads = Agent +
  Downloads :: int

record AgentWithRank = AgentWithMetadata +
  Rank :: rat


record AddAgentRequest =
  req_Graph :: Graph
  req_Author :: string
  req_Keywords :: "string list"
  req_Categories :: "string list"

text \<open>Errors are values. \<open>ErrNoRows\<close> and \<open>ErrTxClosed\<close> are the driver's sentinels,
  \<open>AgentNotFound\<close> is \<^verbatim>\<open>fmt.Errorf("agent not found")\<close>, \<open>DbError\<close> and \<open>ScanError\<close>
  carry the store's or the driver's message. \<open>OutsideModel\<close> marks a statement whose text
  no longer has the shape of the template it was formatted from (see \<open>Search\<close>).\<close>

datatype error =
    ErrNoRows
  | ErrTxClosed
  | AgentNotFound
  | DbError string
  | ScanError string
  | OutsideModel

subsection \<open>The store\<close>

text \<open>One row of table \<^verbatim>\<open>agents\<close>. The column list is the one of the \<^verbatim>\<open>INSERT\<close> of
  \<open>SubmitAgent\<close>, plus \<^verbatim>\<open>download_count\<close> (\<open>IncrementDownloadCount\<close>) and
  \<^verbatim>\<open>search\<close> (\<open>Search\<close>); the search vector is the list of its lexemes.\<close>

record agent_row =
  c_id :: string
  c_name :: string
  c_description :: string
  c_author :: string
  c_keywords :: "string list"
  c_categories :: "string list"
  c_graph :: Graph
  c_version :: int
  c_created_at :: time
  c_updated_at :: time
  c_submission_date :: time
  c_submission_status :: SubmissionStatus
  c_download_count :: int
  c_search :: "string list"

record featured_row =
  fa_agent_id :: string
  fa_featured_categories :: "string list"
  fa_is_active :: bool

text \<open>The store: the committed rows of each table, and the rows written by the open
  transaction of this connection that are not committed yet (\<open>uncommitted\<close>).\<close>

record db =
  agents :: "agent_row list"
  analytics_tracker :: "(string \<times> int) list"
  featured_agent :: "featured_row list"
  uncommitted :: "agent_row list"

definition agents_columns :: "string list" where
  "agents_columns =
     [''id'', ''name'', ''description'', ''author'', ''keywords'', ''categories'', ''graph'',
      ''version'', ''created_at'', ''updated_at'', ''submission_date'', ''submission_status'',
      ''download_count'', ''search'']"

text \<open>What can go wrong in the store or the driver is a parameter of every operation:
  the failure of \<^verbatim>\<open>Begin\<close>, of \<^verbatim>\<open>Exec\<close>, of \<^verbatim>\<open>Commit\<close>, of \<^verbatim>\<open>Query\<close>, of
  \<^verbatim>\<open>QueryRow(...).Scan\<close>; a result set that breaks after \<open>n\<close> rows were delivered
  (\<^verbatim>\<open>rows.Next()\<close> returns false and \<^verbatim>\<open>rows.Err()\<close> holds the error); and the scan
  of the row at index \<open>n\<close> failing.\<close>

record faults =
  begin_err :: "error option"
  exec_err :: "error option"
  commit_err :: "error option"
  query_err :: "error option"
  queryrow_err :: "error option"
  iter_err :: "(nat \<times> error) option"
  scan_err :: "(nat \<times> error) option"

definition no_faults :: faults where
  "no_faults = \<lparr>begin_err = None, exec_err = None, commit_err = None, query_err = None,
     queryrow_err = None, iter_err = None, scan_err = None\<rparr>"

section \<open>CatalogWriter: SubmitAgent\<close>

text \<open>The two impure library calls of \<open>SubmitAgent\<close>: \<^verbatim>\<open>uuid.New().String()\<close> and the
  three successive readings of \<^verbatim>\<open>time.Now()\<close>.\<close>

record submit_env =
  uuid_new :: string
  now1 :: time
  now2 :: time
  now3 :: time

text \<open>The transaction of the driver (\<^verbatim>\<open>pgx.Tx\<close>): \<open>tx_closed\<close> is set by \<^verbatim>\<open>Commit\<close>
  and by \<^verbatim>\<open>Rollback\<close>. A statement executed in the transaction writes to \<open>uncommitted\<close>;
  a successful commit moves these rows to the table; a failed commit and a rollback drop
  them. \<^verbatim>\<open>Rollback\<close> on a closed transaction does nothing and returns \<open>ErrTxClosed\<close>.\<close>

record tx =
  tx_closed :: bool

datatype call = CallBegin | CallExec | CallCommit | CallRollback

definition Begin :: "faults \<Rightarrow> db \<Rightarrow> error + tx" where
  "Begin fl d = (case begin_err fl of Some e \<Rightarrow> Inl e | None \<Rightarrow> Inr \<lparr>tx_closed = False\<rparr>)"

definition row_of :: "AgentWithMetadata \<Rightarrow> agent_row" where
  "row_of a = \<lparr>c_id = ID a, c_name = Name a, c_description = Description a,
     c_author = Author a, c_keywords = Keywords a, c_categories = Categories a,
     c_graph = Graph a, c_version = Version a, c_created_at = CreatedAt a,
     c_updated_at = UpdatedAt a, c_submission_date = SubmissionDate a,
     c_submission_status = SubmissionStatus a, c_download_count = 0, c_search = []\<rparr>"

definition Exec_insert :: "faults \<Rightarrow> db \<Rightarrow> AgentWithMetadata \<Rightarrow> error option \<times> db" where
  "Exec_insert fl d a =
     (case exec_err fl of
        Some e \<Rightarrow> (Some e, d)
      | None \<Rightarrow> (None, d\<lparr>uncommitted := uncommitted d @ [row_of a]\<rparr>))"

definition Commit :: "faults \<Rightarrow> db \<Rightarrow> tx \<Rightarrow> error option \<times> db \<times> tx" where
  "Commit fl d t =
     (if tx_closed t then (Some ErrTxClosed, d, t)
      else case commit_err fl of
        Some e \<Rightarrow> (Some e, d\<lparr>uncommitted := []\<rparr>, t\<lparr>tx_closed := True\<rparr>)
      | None \<Rightarrow> (None, d\<lparr>agents := agents d @ uncommitted d, uncommitted := []\<rparr>,
                  t\<lparr>tx_closed := True\<rparr>))"

definition Rollback :: "db \<Rightarrow> tx \<Rightarrow> error option \<times> db \<times> tx" where
  "Rollback d t =
     (if tx_closed t then (Some ErrTxClosed, d, t)
      else (None, d\<lparr>uncommitted := []\<rparr>, t\<lparr>tx_closed := True\<rparr>))"

text \<open>\<^verbatim>\<open>defer tx.Rollback(ctx)\<close>: runs when the function returns, its error is dropped.\<close>

definition deferred_Rollback ::
  "tx \<Rightarrow> 'a \<times> db \<times> call list \<Rightarrow> 'a \<times> db \<times> call list" where
  "deferred_Rollback t out =
     (case out of (res, d, cs) \<Rightarrow>
        (case Rollback d t of (_, d', _) \<Rightarrow> (res, d', cs @ [CallRollback])))"

definition new_record :: "submit_env \<Rightarrow> AddAgentRequest \<Rightarrow> AgentWithMetadata" where
  "new_record env request =
     \<lparr>ID = uuid_new env,
      Name = g_Name (req_Graph request),
      Description = g_Description (req_Graph request),
      Author = req_Author request,
      Keywords = req_Keywords request,
      Categories = req_Categories request,
      Graph = req_Graph request,
      Version = 1,
      CreatedAt = now1 env,
      UpdatedAt = now2 env,
      SubmissionDate = now3 env,
      SubmissionStatus = PENDING\<rparr>"

text \<open>\<open>SubmitAgent\<close> returns its result, the store afterwards and the calls it made on the
  pool and the transaction, in order. The argument \<open>user\<close> is Go's \<^verbatim>\<open>interface{}\<close>.\<close>

definition SubmitAgent ::
  "submit_env \<Rightarrow> faults \<Rightarrow> db \<Rightarrow> AddAgentRequest \<Rightarrow> 'u \<Rightarrow>
     (error + AgentWithMetadata) \<times> db \<times> call list" where
  "SubmitAgent env fl d request user =
     (let agentWithMetadata = new_record env request in
      case Begin fl d of
        Inl err \<Rightarrow> (Inl err, d, [CallBegin])
      | Inr t \<Rightarrow>
          (case Exec_insert fl d agentWithMetadata of
             (Some err, d1) \<Rightarrow> deferred_Rollback t (Inl err, d1, [CallBegin, CallExec])
           | (None, d1) \<Rightarrow>
               (case Commit fl d1 t of
                  (Some err, d2, t2) \<Rightarrow>
                    deferred_Rollback t2 (Inl err, d2, [CallBegin, CallExec, CallCommit])
                | (None, d2, t2) \<Rightarrow>
                    deferred_Rollback t2
                      (Inr agentWithMetadata, d2, [CallBegin, CallExec, CallCommit]))))"

section \<open>The driver: result sets\<close>

text \<open>\<^verbatim>\<open>db.Query\<close> fails, or hands out a result set: the rows delivered (each with the
  outcome of its \<^verbatim>\<open>rows.Scan\<close>) and what \<^verbatim>\<open>rows.Err()\<close> holds once \<^verbatim>\<open>rows.Next()\<close>
  has returned false. The first argument is the store's evaluation of the statement.\<close>

definition deliver :: "faults \<Rightarrow> 'r list \<Rightarrow> (error + 'r) list \<times> error option" where
  "deliver fl rs =
     (let sent = (case iter_err fl of Some (n, e) \<Rightarrow> take n rs | None \<Rightarrow> rs);
          scan = (\<lambda>(i, r). case scan_err fl of
                     Some (k, e) \<Rightarrow> if i = k then Inl e else Inr r
                   | None \<Rightarrow> Inr r)
      in (map scan (enumerate 0 sent), map_option snd (iter_err fl)))"

definition Query ::
  "faults \<Rightarrow> error + 'r list \<Rightarrow> error + ((error + 'r) list \<times> error option)" where
  "Query fl result =
     (case query_err fl of
        Some e \<Rightarrow> Inl e
      | None \<Rightarrow> (case result of Inl e \<Rightarrow> Inl e | Inr rs \<Rightarrow> Inr (deliver fl rs)))"

text \<open>\<^verbatim>\<open>db.QueryRow(...).Scan(...)\<close>: the first row, \<open>ErrNoRows\<close> when there is none.\<close>

definition QueryRow :: "faults \<Rightarrow> 'r list \<Rightarrow> error + 'r" where
  "QueryRow fl rs =
     (case queryrow_err fl of
        Some e \<Rightarrow> Inl e
      | None \<Rightarrow> (case rs of [] \<Rightarrow> Inl ErrNoRows | r # _ \<Rightarrow> Inr r))"

text \<open>The loop \<^verbatim>\<open>for rows.Next() { err := rows.Scan(...); if err != nil { return nil, err };
  agents = append(agents, agent) }\<close>; \<open>f\<close> is the assignment of the scanned columns to
  the fields of the struct.\<close>

fun scan_loop :: "('r \<Rightarrow> 'a) \<Rightarrow> (error + 'r) list \<Rightarrow> 'a list \<Rightarrow> error + 'a list" where
  "scan_loop f [] acc = Inr acc"
| "scan_loop f (Inl e # rest) acc = Inl e"
| "scan_loop f (Inr r # rest) acc = scan_loop f rest (acc @ [f r])"

section \<open>The store: evaluation of the statements\<close>

text \<open>\<^verbatim>\<open>LIMIT $1 OFFSET $2\<close> with 64-bit arguments; the store rejects a negative one.\<close>

definition page_of :: "go_int \<Rightarrow> go_int \<Rightarrow> 'a list \<Rightarrow> 'a list" where
  "page_of lmt ofs xs = take (nat (sint lmt)) (drop (nat (sint ofs)) xs)"

definition limit_offset :: "go_int \<Rightarrow> go_int \<Rightarrow> 'a list \<Rightarrow> error + 'a list" where
  "limit_offset lmt ofs xs =
     (if sint lmt < 0 then Inl (DbError ''LIMIT must not be negative'')
      else if sint ofs < 0 then Inl (DbError ''OFFSET must not be negative'')
      else Inr (page_of lmt ofs xs))"

definition lower_char :: "char \<Rightarrow> char" where
  "lower_char c =
     (let n = (of_char c :: nat) in if 65 \<le> n \<and> n \<le> 90 then char_of (n + 32) else c)"

text \<open>\<^verbatim>\<open>subject ILIKE pattern\<close>: \<^verbatim>\<open>%\<close> matches any sequence, \<^verbatim>\<open>_\<close> any one
  character, a backslash takes the next pattern character literally, every other
  character matches itself without regard to case. (A pattern that ends with a lone
  backslash is an error of the store; here it matches nothing, and the pattern of
  \<open>GetAgents\<close> always ends with \<^verbatim>\<open>%\<close>.)\<close>

fun like_match :: "string \<Rightarrow> string \<Rightarrow> bool" where
  "like_match [] [] = True"
| "like_match [] (c # s) = False"
| "like_match (p # ps) [] = (p = CHR ''%'' \<and> like_match ps [])"
| "like_match (p # ps) (c # s) =
     (if p = CHR ''%'' then like_match ps (c # s) \<or> like_match (p # ps) s
      else if p = CHR ''_'' then like_match ps s
      else if p = CHR 0x5C then
        (case ps of [] \<Rightarrow> False | q # qs \<Rightarrow> lower_char q = lower_char c \<and> like_match qs s)
      else lower_char p = lower_char c \<and> like_match ps s)"

text \<open>The \<^verbatim>\<open>WHERE\<close> clause of \<open>GetAgents\<close>; a nil pointer is bound as \<^verbatim>\<open>NULL\<close>.\<close>

definition GetAgents_where ::
  "string option \<Rightarrow> string option \<Rightarrow> string option \<Rightarrow> agent_row \<Rightarrow> bool" where
  "GetAgents_where name keywords categories r =
     (c_submission_status r = APPROVED \<and>
      (case name of None \<Rightarrow> True | Some n \<Rightarrow> like_match (''%'' @ n @ ''%'') (c_name r)) \<and>
      (case keywords of None \<Rightarrow> True | Some k \<Rightarrow> k \<in> set (c_keywords r)) \<and>
      (case categories of None \<Rightarrow> True | Some c \<Rightarrow> c \<in> set (c_categories r)))"

text \<open>\<^verbatim>\<open>ORDER BY created_at DESC\<close>: rows with equal keys stay in table order (the store
  may return them in any order; the model fixes one).\<close>

definition order_by_created_at_desc :: "agent_row list \<Rightarrow> agent_row list" where
  "order_by_created_at_desc rs = sort_key (\<lambda>r. - c_created_at r) rs"

definition GetAgents_query ::
  "db \<Rightarrow> go_int \<Rightarrow> go_int \<Rightarrow> string option \<Rightarrow> string option \<Rightarrow> string option \<Rightarrow>
     error + agent_row list" where
  "GetAgents_query d lmt ofs name keywords categories =
     limit_offset lmt ofs
       (order_by_created_at_desc (filter (GetAgents_where name keywords categories) (agents d)))"

text \<open>\<^verbatim>\<open>FROM agents a JOIN analytics_tracker at ON a.id = at.agent_id
  WHERE a.submission_status = 'APPROVED' ORDER BY at.downloads DESC\<close>.\<close>

definition top_join :: "db \<Rightarrow> (agent_row \<times> int) list" where
  "top_join d =
     [(a, n). a \<leftarrow> agents d, (aid, n) \<leftarrow> analytics_tracker d,
              c_id a = aid \<and> c_submission_status a = APPROVED]"

definition GetTop_query :: "db \<Rightarrow> go_int \<Rightarrow> go_int \<Rightarrow> error + (agent_row \<times> int) list" where
  "GetTop_query d lmt ofs = limit_offset lmt ofs (sort_key (\<lambda>(a, n). - n) (top_join d))"

text \<open>\<^verbatim>\<open>SELECT COUNT(*) FROM agents WHERE submission_status = 'APPROVED'\<close>.\<close>

definition GetTop_count :: "db \<Rightarrow> int list" where
  "GetTop_count d = [int (length (filter (\<lambda>a. c_submission_status a = APPROVED) (agents d)))]"

text \<open>\<^verbatim>\<open>FROM agents a JOIN featured_agent fa ON a.id = fa.agent_id WHERE $1 =
  ANY(fa.featured_categories) AND fa.is_active = true AND a.submission_status =
  'APPROVED'\<close>, and the count over the same join.\<close>

definition featured_join :: "db \<Rightarrow> string \<Rightarrow> agent_row list" where
  "featured_join d category =
     [a. a \<leftarrow> agents d, fa \<leftarrow> featured_agent d,
         c_id a = fa_agent_id fa \<and> category \<in> set (fa_featured_categories fa) \<and>
         fa_is_active fa \<and> c_submission_status a = APPROVED]"

definition GetFeatured_query ::
  "db \<Rightarrow> string \<Rightarrow> go_int \<Rightarrow> go_int \<Rightarrow> error + agent_row list" where
  "GetFeatured_query d category lmt ofs =
     limit_offset lmt ofs (order_by_created_at_desc (featured_join d category))"

definition GetFeatured_count :: "db \<Rightarrow> string \<Rightarrow> int list" where
  "GetFeatured_count d category =
     [int (length [fa. fa \<leftarrow> featured_agent d, a \<leftarrow> agents d,
                       fa_agent_id fa = c_id a \<and> category \<in> set (fa_featured_categories fa) \<and>
                       fa_is_active fa \<and> c_submission_status a = APPROVED])]"

section \<open>CatalogReader\<close>

text \<open>The destinations of \<^verbatim>\<open>rows.Scan\<close>, in the order of the selected columns.\<close>

definition scan_Agent :: "agent_row \<Rightarrow> Agent" where
  "scan_Agent r = \<lparr>ID = c_id r, Name = c_name r, Description = c_description r,
     Author = c_author r, Keywords = c_keywords r, Categories = c_categories r,
     Graph = c_graph r\<rparr>"



definition scan_AgentWithDownloads :: "agent_row \<times> int \<Rightarrow> AgentWithDownloads" where
  "scan_AgentWithDownloads x = (case x of (r, n) \<Rightarrow>
     \<lparr>ID = c_id r, Name = c_name r, Description = c_description r,
      Author = c_author r, Keywords = c_keywords r, Categories = c_categories r,
      Graph = c_graph r, Downloads = n\<rparr>)"

definition GetAgents ::
  "faults \<Rightarrow> db \<Rightarrow> go_int \<Rightarrow> go_int \<Rightarrow> string option \<Rightarrow> string option \<Rightarrow> string option \<Rightarrow>
     error + Agent list" where
  "GetAgents fl d page pageSize name keywords categories =
     (case Query fl (GetAgents_query d pageSize ((page - 1) * pageSize) name keywords categories) of
        Inl err \<Rightarrow> Inl err
      | Inr (rows, rows_Err) \<Rightarrow>
          (case scan_loop scan_Agent rows [] of
             Inl err \<Rightarrow> Inl err
           | Inr found \<Rightarrow>
               (case rows_Err of Some err \<Rightarrow> Inl err | None \<Rightarrow> Inr found)))"



text \<open>\<open>GetTopAgentsByDownloads\<close> and \<open>GetFeaturedAgents\<close> do not consult
  \<^verbatim>\<open>rows.Err()\<close> after the loop.\<close>

definition GetTopAgentsByDownloads ::
  "faults \<Rightarrow> db \<Rightarrow> go_int \<Rightarrow> go_int \<Rightarrow> error + (AgentWithDownloads list \<times> int)" where
  "GetTopAgentsByDownloads fl d page pageSize =
     (let offset = (page - 1) * pageSize in
      case Query fl (GetTop_query d pageSize offset) of
        Inl err \<Rightarrow> Inl err
      | Inr (rows, rows_Err) \<Rightarrow>
          (case scan_loop scan_AgentWithDownloads rows [] of
             Inl err \<Rightarrow> Inl err
           | Inr found \<Rightarrow>
               (case QueryRow fl (GetTop_count d) of
                  Inl err \<Rightarrow> Inl err
                | Inr totalCount \<Rightarrow> Inr (found, totalCount))))"

definition GetFeaturedAgents ::
  "faults \<Rightarrow> db \<Rightarrow> string \<Rightarrow> go_int \<Rightarrow> go_int \<Rightarrow> error + (Agent list \<times> int)" where
  "GetFeaturedAgents fl d category page pageSize =
     (let offset = (page - 1) * pageSize in
      case Query fl (GetFeatured_query d category pageSize offset) of
        Inl err \<Rightarrow> Inl err
      | Inr (rows, rows_Err) \<Rightarrow>
          (case scan_loop scan_Agent rows [] of
             Inl err \<Rightarrow> Inl err
           | Inr found \<Rightarrow>
               (case QueryRow fl (GetFeatured_count d category) of
                  Inl err \<Rightarrow> Inl err
                | Inr totalCount \<Rightarrow> Inr (found, totalCount))))"

section \<open>SearchEngine\<close>

subsection \<open>Composition of the statement text\<close>

text \<open>\<^verbatim>\<open>strings.Join\<close>.\<close>

fun Join :: "string list \<Rightarrow> string \<Rightarrow> string" where
  "Join [] sep = []"
| "Join [x] sep = x"
| "Join (x # y # ys) sep = x @ sep @ Join (y # ys) sep"

text \<open>\<^verbatim>\<open>fmt.Sprintf("'%s' = ANY(a.categories)", cat)\<close>.\<close>

definition categoryCondition :: "string \<Rightarrow> string" where
  "categoryCondition cat = [CHR 0x27] @ cat @ [CHR 0x27] @ '' = ANY(a.categories)''"

definition categoryFilter :: "string list \<Rightarrow> string" where
  "categoryFilter categories =
     (if length categories > 0
      then ''AND ('' @ Join (map categoryCondition categories) '' OR '' @ '')''
      else '''')"

definition orderByClause :: "string \<Rightarrow> string \<Rightarrow> string" where
  "orderByClause sortBy sortOrder =
     (if sortBy = ''createdAt'' \<or> sortBy = ''updatedAt''
      then ''a.'' @ [CHR 0x22] @ sortBy @ [CHR 0x22] @ '' '' @ sortOrder @ '', rank DESC''
      else if sortBy = ''name''
      then ''a.name '' @ sortOrder @ '', rank DESC''
      else ''rank DESC, a.'' @ [CHR 0x22] @ ''createdAt'' @ [CHR 0x22] @ '' DESC'')"

definition line :: "nat \<Rightarrow> string \<Rightarrow> string" where
  "line n s = replicate n (CHR 0x09) @ s @ [CHR 0x0A]"

definition sqlQuery_select :: string where
  "sqlQuery_select =
     [CHR 0x0A] @
     line 2 ''WITH query AS ('' @
     line 3 ''SELECT to_tsquery(string_agg(lexeme || ':*', ' & ' ORDER BY positions)) AS q '' @
     line 3 ''FROM unnest(to_tsvector($1))'' @
     line 2 '')'' @
     line 2 ''SELECT '' @
     line 3 ''a.id, '' @
     line 3 ''a.created_at, '' @
     line 3 ''a.updated_at, '' @
     line 3 ''a.version, '' @
     line 3 ''a.name, '' @
     line 3 ''LEFT(a.description, 500) AS description, '' @
     line 3 ''a.author, '' @
     line 3 ''a.keywords, '' @
     line 3 ''a.categories, '' @
     line 3 ''a.graph,'' @
     line 3 ''a.submission_status,'' @
     line 3 ''a.submission_date,'' @
     line 3 ''ts_rank(CAST(a.search AS tsvector), query.q) AS rank'' @
     line 2 ''FROM agents a, query''"

text \<open>The \<^verbatim>\<open>fmt.Sprintf\<close> of the statement: the two \<^verbatim>\<open>%s\<close> receive the category
  filter and the order-by clause.\<close>

definition sqlQuery :: "string \<Rightarrow> string \<Rightarrow> string" where
  "sqlQuery catFilter orderBy =
     sqlQuery_select @
     replicate 2 (CHR 0x09) @ ''WHERE a.submission_status = 'APPROVED' '' @ catFilter @ [CHR 0x0A] @
     replicate 2 (CHR 0x09) @ ''ORDER BY '' @ orderBy @ [CHR 0x0A] @
     line 2 ''LIMIT $2'' @
     replicate 2 (CHR 0x09) @ ''OFFSET $3'' @ [CHR 0x0A] @ [CHR 0x09]"

text \<open>What \<open>Search\<close> hands to \<^verbatim>\<open>db.Query\<close>: the statement text and the bound
  arguments \<^verbatim>\<open>$1\<close>, \<^verbatim>\<open>$2\<close>, \<^verbatim>\<open>$3\<close>.\<close>

datatype arg = ArgText string | ArgInt go_int

definition Search_sql :: "string list \<Rightarrow> string \<Rightarrow> string \<Rightarrow> string" where
  "Search_sql categories sortBy sortOrder =
     sqlQuery (categoryFilter categories) (orderByClause sortBy sortOrder)"

definition Search_args :: "string \<Rightarrow> go_int \<Rightarrow> go_int \<Rightarrow> arg list" where
  "Search_args query page pageSize =
     [ArgText query, ArgInt pageSize, ArgInt ((page - 1) * pageSize)]"

subsection \<open>Structure of the order-by clause\<close>

text \<open>The sort expressions the \<^verbatim>\<open>switch\<close> on \<open>sortBy\<close> writes, with their direction words:
  a quoted column of \<^verbatim>\<open>a\<close>, a plain column of \<^verbatim>\<open>a\<close>, or the output column
  \<^verbatim>\<open>rank\<close>. \<open>orderByClause\<close> is their rendering (lemma \<open>orderByClause_render\<close>).\<close>

datatype order_expr = QuotedCol string | PlainCol string | RankCol

definition order_keys :: "string \<Rightarrow> string \<Rightarrow> (order_expr \<times> string) list" where
  "order_keys sortBy sortOrder =
     (if sortBy = ''createdAt'' \<or> sortBy = ''updatedAt''
      then [(QuotedCol sortBy, sortOrder), (RankCol, ''DESC'')]
      else if sortBy = ''name''
      then [(PlainCol ''name'', sortOrder), (RankCol, ''DESC'')]
      else [(RankCol, ''DESC''), (QuotedCol ''createdAt'', ''DESC'')])"

fun render_expr :: "order_expr \<Rightarrow> string" where
  "render_expr (QuotedCol c) = ''a.'' @ [CHR 0x22] @ c @ [CHR 0x22]"
| "render_expr (PlainCol c) = ''a.'' @ c"
| "render_expr RankCol = ''rank''"

definition render_key :: "order_expr \<times> string \<Rightarrow> string" where
  "render_key k = render_expr (fst k) @ '' '' @ snd k"

subsection \<open>The store's evaluation of the search statement\<close>

text \<open>The text engine of the store is a parameter: the tokenizer (\<^verbatim>\<open>to_tsvector\<close>:
  lexemes with their positions), the parser of query text (\<^verbatim>\<open>to_tsquery\<close>), the
  ranking function (\<^verbatim>\<open>ts_rank\<close>) and the collation of text columns.\<close>

record 'q engine =
  to_tsvector :: "string \<Rightarrow> (string \<times> nat list) list"
  to_tsquery :: "string \<Rightarrow> 'q"
  ts_rank :: "string list \<Rightarrow> 'q \<Rightarrow> rat"
  collate_le :: "string \<Rightarrow> string \<Rightarrow> bool"

text \<open>Order on position arrays (\<^verbatim>\<open>ORDER BY positions\<close>): lexicographic.\<close>

fun positions_le :: "nat list \<Rightarrow> nat list \<Rightarrow> bool" where
  "positions_le [] ys = True"
| "positions_le (x # xs) [] = False"
| "positions_le (x # xs) (y # ys) = (x < y \<or> (x = y \<and> positions_le xs ys))"

text \<open>Stable insertion sort by a comparison (\<^verbatim>\<open>ORDER BY\<close>).\<close>

fun insort_by :: "('a \<Rightarrow> 'a \<Rightarrow> bool) \<Rightarrow> 'a \<Rightarrow> 'a list \<Rightarrow> 'a list" where
  "insort_by le x [] = [x]"
| "insort_by le x (y # ys) = (if le x y then x # y # ys else y # insort_by le x ys)"

definition sort_by :: "('a \<Rightarrow> 'a \<Rightarrow> bool) \<Rightarrow> 'a list \<Rightarrow> 'a list" where
  "sort_by le xs = foldr (insort_by le) xs []"

text \<open>\<^verbatim>\<open>string_agg(lexeme || ':*', ' & ' ORDER BY positions)\<close> over the rows of
  \<^verbatim>\<open>unnest(to_tsvector($1))\<close>: \<^verbatim>\<open>NULL\<close> when there is no row.\<close>

definition ordered_lexemes :: "'q engine \<Rightarrow> string \<Rightarrow> (string \<times> nat list) list" where
  "ordered_lexemes eng query =
     sort_by (\<lambda>a b. positions_le (snd a) (snd b)) (to_tsvector eng query)"

definition tsquery_text :: "'q engine \<Rightarrow> string \<Rightarrow> string option" where
  "tsquery_text eng query =
     (case ordered_lexemes eng query of
        [] \<Rightarrow> None
      | ls \<Rightarrow> Some (Join (map (\<lambda>l. fst l @ '':*'') ls) '' & ''))"

text \<open>The row of the CTE \<^verbatim>\<open>query\<close>: \<^verbatim>\<open>to_tsquery\<close> is strict, \<^verbatim>\<open>NULL\<close> gives \<^verbatim>\<open>NULL\<close>.\<close>

definition query_q :: "'q engine \<Rightarrow> string \<Rightarrow> 'q option" where
  "query_q eng query = map_option (to_tsquery eng) (tsquery_text eng query)"

text \<open>A row of the result: the columns of \<^verbatim>\<open>a\<close> and \<^verbatim>\<open>rank\<close> (\<^verbatim>\<open>ts_rank\<close> is
  strict: \<^verbatim>\<open>NULL\<close> when the query is).\<close>

type_synonym search_row = "agent_row \<times> rat option"

definition with_rank :: "'q engine \<Rightarrow> 'q option \<Rightarrow> agent_row \<Rightarrow> search_row" where
  "with_rank eng q a = (a, map_option (ts_rank eng (c_search a)) q)"

text \<open>The category filter as the template means it: no restriction without categories,
  else one of them is an element of the row's categories.\<close>

definition category_ok :: "string list \<Rightarrow> agent_row \<Rightarrow> bool" where
  "category_ok categories a =
     (categories = [] \<or> list_ex (\<lambda>c. c \<in> set (c_categories a)) categories)"

datatype direction = Asc | Desc

datatype sort_col = ByName | ByCreatedAt | ByUpdatedAt | ByRank

text \<open>The direction word after a sort expression: nothing or \<^verbatim>\<open>ASC\<close>, or \<^verbatim>\<open>DESC\<close>,
  in any case; any other text is outside the template.\<close>

definition parse_direction :: "string \<Rightarrow> error + direction" where
  "parse_direction w =
     (if w = '''' \<or> map lower_char w = ''asc'' then Inr Asc
      else if map lower_char w = ''desc'' then Inr Desc
      else Inl OutsideModel)"

text \<open>Resolution of a sort expression against table \<^verbatim>\<open>agents\<close>: a quoted identifier
  is taken as written, a plain one is folded to lower case; a name that is not a column
  is an error of the store.\<close>

definition resolve_column :: "string \<Rightarrow> error + sort_col" where
  "resolve_column c =
     (if c \<notin> set agents_columns
      then Inl (DbError (''column a.'' @ c @ '' does not exist''))
      else if c = ''name'' then Inr ByName
      else if c = ''created_at'' then Inr ByCreatedAt
      else if c = ''updated_at'' then Inr ByUpdatedAt
      else Inl OutsideModel)"

fun resolve_expr :: "order_expr \<Rightarrow> error + sort_col" where
  "resolve_expr (QuotedCol c) = resolve_column c"
| "resolve_expr (PlainCol c) = resolve_column (map lower_char c)"
| "resolve_expr RankCol = Inr ByRank"

fun resolve_keys :: "(order_expr \<times> string) list \<Rightarrow> error + (sort_col \<times> direction) list" where
  "resolve_keys [] = Inr []"
| "resolve_keys ((e, w) # ks) =
     (case resolve_expr e of
        Inl err \<Rightarrow> Inl err
      | Inr c \<Rightarrow>
          (case parse_direction w of
             Inl err \<Rightarrow> Inl err
           | Inr dir \<Rightarrow>
               (case resolve_keys ks of Inl err \<Rightarrow> Inl err | Inr rest \<Rightarrow> Inr ((c, dir) # rest))))"

datatype ordering = LT | EQ | GT

definition compare_int :: "int \<Rightarrow> int \<Rightarrow> ordering" where
  "compare_int x y = (if x < y then LT else if x = y then EQ else GT)"

text \<open>\<^verbatim>\<open>NULL\<close> sorts as larger than every value.\<close>

fun compare_rank :: "rat option \<Rightarrow> rat option \<Rightarrow> ordering" where
  "compare_rank None None = EQ"
| "compare_rank None (Some y) = GT"
| "compare_rank (Some x) None = LT"
| "compare_rank (Some x) (Some y) = (if x < y then LT else if x = y then EQ else GT)"

fun compare_col :: "'q engine \<Rightarrow> sort_col \<Rightarrow> search_row \<Rightarrow> search_row \<Rightarrow> ordering" where
  "compare_col eng ByName x y =
     (if c_name (fst x) = c_name (fst y) then EQ
      else if collate_le eng (c_name (fst x)) (c_name (fst y)) then LT else GT)"
| "compare_col eng ByCreatedAt x y = compare_int (c_created_at (fst x)) (c_created_at (fst y))"
| "compare_col eng ByUpdatedAt x y = compare_int (c_updated_at (fst x)) (c_updated_at (fst y))"
| "compare_col eng ByRank x y = compare_rank (snd x) (snd y)"

fun flip :: "ordering \<Rightarrow> ordering" where
  "flip LT = GT"
| "flip EQ = EQ"
| "flip GT = LT"

fun compare_rows ::
  "'q engine \<Rightarrow> (sort_col \<times> direction) list \<Rightarrow> search_row \<Rightarrow> search_row \<Rightarrow> ordering" where
  "compare_rows eng [] x y = EQ"
| "compare_rows eng ((c, dir) # ks) x y =
     (case (if dir = Asc then compare_col eng c x y else flip (compare_col eng c x y)) of
        EQ \<Rightarrow> compare_rows eng ks x y
      | LT \<Rightarrow> LT
      | GT \<Rightarrow> GT)"

text \<open>The statement of \<open>Search\<close> on the store. The text that reaches the store has the
  shape of the template only when no category value contains a quote character (the
  value is written between quotes into the text); for any other category list the
  statement is a different one and the model gives no result for it. Analysis of the
  statement (the sort expressions) comes before its execution.\<close>

definition Search_where :: "string list \<Rightarrow> agent_row \<Rightarrow> bool" where
  "Search_where categories a = (c_submission_status a = APPROVED \<and> category_ok categories a)"

definition Search_rows ::
  "'q engine \<Rightarrow> db \<Rightarrow> string list \<Rightarrow> (sort_col \<times> direction) list \<Rightarrow> string \<Rightarrow> search_row list" where
  "Search_rows eng d categories keys query =
     sort_by (\<lambda>x y. compare_rows eng keys x y \<noteq> GT)
       (map (with_rank eng (query_q eng query)) (filter (Search_where categories) (agents d)))"

definition Search_query ::
  "'q engine \<Rightarrow> db \<Rightarrow> string list \<Rightarrow> string \<Rightarrow> string \<Rightarrow> string \<Rightarrow> go_int \<Rightarrow> go_int \<Rightarrow>
     error + search_row list" where
  "Search_query eng d categories sortBy sortOrder query lmt ofs =
     (if CHR 0x27 \<in> set (concat categories) then Inl OutsideModel
      else case resolve_keys (order_keys sortBy sortOrder) of
        Inl err \<Rightarrow> Inl err
      | Inr keys \<Rightarrow> limit_offset lmt ofs (Search_rows eng d categories keys query))"

text \<open>\<^verbatim>\<open>rows.Scan\<close> of \<open>Search\<close>: thirteen destinations in the order of the selected
  columns, the description cut by \<^verbatim>\<open>LEFT(a.description, 500)\<close>. \<open>Rank\<close> is a float: a
  \<^verbatim>\<open>NULL\<close> rank cannot be scanned into it.\<close>

definition ranked :: "agent_row \<Rightarrow> rat \<Rightarrow> AgentWithRank" where
  "ranked r v =
     \<lparr>ID = c_id r, Name = c_name r, Description = take 500 (c_description r),
      Author = c_author r, Keywords = c_keywords r, Categories = c_categories r,
      Graph = c_graph r, Version = c_version r, CreatedAt = c_created_at r,
      UpdatedAt = c_updated_at r, SubmissionDate = c_submission_date r,
      SubmissionStatus = c_submission_status r, Rank = v\<rparr>"

definition scan_AgentWithRank :: "search_row \<Rightarrow> error + AgentWithRank" where
  "scan_AgentWithRank x = (case x of (r, rk) \<Rightarrow>
     (case rk of
        None \<Rightarrow> Inl (ScanError ''cannot scan NULL into *float64'')
      | Some v \<Rightarrow> Inr (ranked r v)))"

text \<open>The loop of \<open>Search\<close>, with a scan that can fail on the row's own content.\<close>

fun scan_loop_rank :: "(error + search_row) list \<Rightarrow> AgentWithRank list \<Rightarrow> error + AgentWithRank list" where
  "scan_loop_rank [] acc = Inr acc"
| "scan_loop_rank (Inl e # rest) acc = Inl e"
| "scan_loop_rank (Inr r # rest) acc =
     (case scan_AgentWithRank r of
        Inl err \<Rightarrow> Inl err
      | Inr agent \<Rightarrow> scan_loop_rank rest (acc @ [agent]))"

text \<open>\<open>Search\<close> returns the rows scanned so far when \<^verbatim>\<open>rows.Next()\<close> returns false;
  it does not consult \<^verbatim>\<open>rows.Err()\<close>.\<close>

definition Search ::
  "'q engine \<Rightarrow> faults \<Rightarrow> db \<Rightarrow> string \<Rightarrow> string list \<Rightarrow> go_int \<Rightarrow> go_int \<Rightarrow> string \<Rightarrow> string \<Rightarrow>
     error + AgentWithRank list" where
  "Search eng fl d query categories page pageSize sortBy sortOrder =
     (let offset = (page - 1) * pageSize in
      case Query fl (Search_query eng d categories sortBy sortOrder query pageSize offset) of
        Inl err \<Rightarrow> Inl err
      | Inr (rows, rows_Err) \<Rightarrow> scan_loop_rank rows [])"

section \<open>The listing of the specification\<close>







text \<open>A lexeme of a search vector matches a prefix term.\<close>

fun is_prefix :: "string \<Rightarrow> string \<Rightarrow> bool" where
  "is_prefix [] s = True"
| "is_prefix (p # ps) [] = False"
| "is_prefix (p # ps) (c # s) = (p = c \<and> is_prefix ps s)"

definition matches_prefix :: "string list \<Rightarrow> string \<Rightarrow> bool" where
  "matches_prefix vec t = list_ex (is_prefix t) vec"

section \<open>A small catalog\<close>

definition mk_row ::
  "string \<Rightarrow> string \<Rightarrow> time \<Rightarrow> SubmissionStatus \<Rightarrow> string list \<Rightarrow> string list \<Rightarrow> agent_row" where
  "mk_row i n t st cats vec =
     \<lparr>c_id = i, c_name = n, c_description = ''d'', c_author = ''ann'', c_keywords = [],
      c_categories = cats, c_graph = \<lparr>g_Name = n, g_Description = ''d'', g_Body = ''{}''\<rparr>,
      c_version = 1, c_created_at = t, c_updated_at = t, c_submission_date = t,
      c_submission_status = st, c_download_count = 0, c_search = vec\<rparr>"

definition row_a1 :: agent_row where
  "row_a1 = mk_row ''a1'' ''RoboBot'' 30 APPROVED [''tools''] [''foobar'', ''barn'']"

definition row_a2 :: agent_row where
  "row_a2 = mk_row ''a2'' ''Botling'' 20 APPROVED [''tools''] [''foo'']"

definition row_a3 :: agent_row where
  "row_a3 = mk_row ''a3'' ''Helper'' 10 APPROVED [''games''] [''helper'']"

definition row_p1 :: agent_row where
  "row_p1 = mk_row ''p1'' ''Draft'' 40 PENDING [''tools''] [''foo'', ''bar'']"

definition demo_db :: db where
  "demo_db = \<lparr>agents = [row_a1, row_a2, row_a3, row_p1],
     analytics_tracker = [(''a1'', 5)],
     featured_agent =
       [\<lparr>fa_agent_id = ''a2'', fa_featured_categories = [''tools''], fa_is_active = True\<rparr>,
        \<lparr>fa_agent_id = ''p1'', fa_featured_categories = [''tools''], fa_is_active = True\<rparr>],
     uncommitted = []\<rparr>"

text \<open>A text engine for the catalog above: it knows the query text \<^verbatim>\<open>foo bar\<close>, ranks a
  vector by the number of prefix terms it matches, and collates by byte order.\<close>

fun bytes_le :: "string \<Rightarrow> string \<Rightarrow> bool" where
  "bytes_le [] s = True"
| "bytes_le (a # as) [] = False"
| "bytes_le (a # as) (b # bs) =
     ((of_char a :: nat) < of_char b \<or> (a = b \<and> bytes_le as bs))"

definition demo_engine :: "(string list) engine" where
  "demo_engine =
     \<lparr>to_tsvector = (\<lambda>s. if s = ''foo bar'' then [(''bar'', [2]), (''foo'', [1])] else []),
      to_tsquery = (\<lambda>t. if t = ''foo:* & bar:*'' then [''foo'', ''bar''] else []),
      ts_rank = (\<lambda>vec q. of_nat (length (filter (matches_prefix vec) q))),
      collate_le = bytes_le\<rparr>"

definition broken_stream :: faults where
  "broken_stream = no_faults\<lparr>iter_err := Some (1, DbError ''connection reset'')\<rparr>"

section \<open>Fixtures for SubmitAgent\<close>






section \<open>Properties of SubmitAgent\<close>











text \<open>
  Claim C10. The result of \<open>SubmitAgent\<close>, the store afterwards and the calls made do
  not depend on the submitter argument: two calls that differ only in \<open>user\<close> (of any
  two types) agree.
\<close>

theorem SubmitAgent_ignores_user:
  "SubmitAgent env fl d request (u1 :: 'a) = SubmitAgent env fl d request (u2 :: 'b)"
  by (simp add: SubmitAgent_def)

section \<open>Lemmas on the driver and the statements\<close>























































section \<open>Search: the category values in the statement text\<close>

lemma sqlQuery_inject:
  "sqlQuery cf ob = sqlQuery cf' ob \<longleftrightarrow> cf = cf'"
  by (simp add: sqlQuery_def)

text \<open>
  Claim C2. The claim says that every category value reaches the store as a bound
  parameter and that the statement text is the same for all category values of a given
  count. The code writes each value between quotes into the text: the bound arguments are
  the query text, the page size and the offset only; two different values give two
  different texts; and the single value \<^verbatim>\<open>x' = ANY(a.categories) OR 'a\<close> gives the very
  text that the two values \<^verbatim>\<open>x\<close> and \<^verbatim>\<open>a\<close> give, so a value changes the structure of
  the statement. \<open>GetAgents\<close> and \<open>GetFeaturedAgents\<close> bind their category (\<^verbatim>\<open>$5\<close>,
  \<^verbatim>\<open>$1\<close>).
\<close>

theorem Search_category_in_text:
  "Search_args ''bot'' 1 10 = [ArgText ''bot'', ArgInt 10, ArgInt 0] \<and>
   categoryFilter [''tools''] = ''AND ('tools' = ANY(a.categories))'' \<and>
   Search_sql [''tools''] ''name'' ''ASC'' \<noteq> Search_sql [''games''] ''name'' ''ASC'' \<and>
   Search_sql [''x' = ANY(a.categories) OR 'a''] ''name'' ''ASC'' =
     Search_sql [''x'', ''a''] ''name'' ''ASC''"
  by (simp add: Search_args_def Search_sql_def sqlQuery_inject categoryFilter_def
      categoryCondition_def)

section \<open>Visibility of entries that are not approved\<close>




section \<open>ListAgents\<close>




section \<open>Search: the text predicate\<close>






section \<open>Search: the sort keys\<close>

lemma orderByClause_render:
  "orderByClause sortBy sortOrder = Join (map render_key (order_keys sortBy sortOrder)) '', ''"
  by (simp add: orderByClause_def order_keys_def render_key_def)

text \<open>
  Claim C6. The claim says that for an omitted or unrecognised \<open>sortBy\<close> the results are
  ordered by rank, then creation time, and that this ordering does not fail against the
  schema. The code orders by the quoted identifier \<^verbatim>\<open>a."createdAt"\<close>; the column of
  \<^verbatim>\<open>agents\<close> is \<^verbatim>\<open>created_at\<close> (as the select list of the same statement and the insert
  of \<open>SubmitAgent\<close> have it), so the store rejects the statement, for every store, query
  text and page. The keys \<^verbatim>\<open>createdAt\<close> and \<^verbatim>\<open>updatedAt\<close> are rejected in the same way;
  the key \<^verbatim>\<open>name\<close> is accepted.
\<close>

theorem Search_default_order_fails:
  "Search eng no_faults d query [] page pageSize '''' sortOrder =
     Inl (DbError ''column a.createdAt does not exist'') \<and>
   Search eng no_faults d query [] page pageSize ''createdAt'' sortOrder =
     Inl (DbError ''column a.createdAt does not exist'') \<and>
   Search eng no_faults d query [] page pageSize ''updatedAt'' sortOrder =
     Inl (DbError ''column a.updatedAt does not exist'') \<and>
   orderByClause '''' sortOrder =
     ''rank DESC, a.'' @ [CHR 0x22] @ ''createdAt'' @ [CHR 0x22] @ '' DESC'' \<and>
   ''createdAt'' \<notin> set agents_columns \<and> ''created_at'' \<in> set agents_columns \<and>
   Search demo_engine no_faults demo_db ''foo bar'' [] 1 10 ''name'' ''ASC'' =
     Inr [ranked row_a2 1, ranked row_a3 0, ranked row_a1 2]"
proof -
  have desc: "parse_direction ''DESC'' = Inr Desc"
    by code_simp
  have default: "resolve_keys (order_keys '''' sortOrder) =
      Inl (DbError ''column a.createdAt does not exist'')"
    by (simp add: order_keys_def resolve_column_def agents_columns_def desc)
  have created: "resolve_keys (order_keys ''createdAt'' sortOrder) =
      Inl (DbError ''column a.createdAt does not exist'')"
    by (simp add: order_keys_def resolve_column_def agents_columns_def)
  have updated: "resolve_keys (order_keys ''updatedAt'' sortOrder) =
      Inl (DbError ''column a.updatedAt does not exist'')"
    by (simp add: order_keys_def resolve_column_def agents_columns_def)
  have run: "Search eng no_faults d query [] page pageSize sortBy sortOrder = Inl e"
    if "resolve_keys (order_keys sortBy sortOrder) = Inl e" for sortBy e
    using that by (simp add: Search_def Query_def Search_query_def no_faults_def)
  have byname: "Search demo_engine no_faults demo_db ''foo bar'' [] 1 10 ''name'' ''ASC'' =
     Inr [ranked row_a2 1, ranked row_a3 0, ranked row_a1 2]"
    by code_simp
  show ?thesis
    using run [OF default] run [OF created] run [OF updated] byname
    by (simp add: orderByClause_def agents_columns_def)
qed

section \<open>The total of GetTopAgentsByDownloads\<close>

text \<open>
  Claim C7. The claim says that the total counts the entries that qualify for the
  listing: approved entries present in the download aggregate. The count statement of
  the code reads table \<^verbatim>\<open>agents\<close> alone. In the small catalog one approved entry has a
  download row: the page holds that entry, the listing has one row, the total is 3.
  \<open>GetFeaturedAgents\<close> counts over the join of its listing and reports 1 for its one
  row.
\<close>

theorem GetTop_count_mismatch:
  "GetTopAgentsByDownloads no_faults demo_db 1 10 =
     Inr ([scan_AgentWithDownloads (row_a1, 5)], 3) \<and>
   top_join demo_db = [(row_a1, 5)] \<and>
   GetFeaturedAgents no_faults demo_db ''tools'' 1 10 = Inr ([scan_Agent row_a2], 1) \<and>
   featured_join demo_db ''tools'' = [row_a2]"
  by code_simp

section \<open>Failures of the result set\<close>

text \<open>
  Claim C9. The claim says that a result set that fails partway makes the operation
  return the failure. \<open>GetAgents\<close> consults \<^verbatim>\<open>rows.Err()\<close> after its loop and does so;
  \<open>Search\<close>, \<open>GetTopAgentsByDownloads\<close> and \<open>GetFeaturedAgents\<close> do not: when the
  result set breaks after one row, \<open>Search\<close> reports success with that one row of
  three, and the two others report success as well.
\<close>

theorem Search_swallows_rows_err:
  "iter_err broken_stream = Some (1, DbError ''connection reset'') \<and>
   Search demo_engine no_faults demo_db ''foo bar'' [] 1 10 ''name'' ''ASC'' =
     Inr [ranked row_a2 1, ranked row_a3 0, ranked row_a1 2] \<and>
   Search demo_engine broken_stream demo_db ''foo bar'' [] 1 10 ''name'' ''ASC'' =
     Inr [ranked row_a2 1] \<and>
   GetAgents broken_stream demo_db 1 10 None None None = Inl (DbError ''connection reset'') \<and>
   GetTopAgentsByDownloads broken_stream demo_db 1 10 =
     Inr ([scan_AgentWithDownloads (row_a1, 5)], 3) \<and>
   GetFeaturedAgents broken_stream demo_db ''tools'' 1 10 = Inr ([scan_Agent row_a2], 1)"
  by code_simp

end
